theory Spec2Isabelle
  imports Complex_Main "HOL-Library.Char_ord" "HOL-Library.List_Lexorder"
begin

section \<open>Values of the data frame\<close>

text \<open>
  A cell of a numeric column is a Python float. The model keeps the four kinds of value
  a float can be: a finite number (embedded in the reals; the thresholds of the
  classifier are integers, so every comparison made by the code is exact), the two
  infinities, and NaN, which is how pandas stores a missing number.
\<close>

datatype pyfloat = Num real | PosInf | NegInf | NaN

text \<open>Python's \<^verbatim>\<open><=\<close> on floats: false as soon as one side is NaN.\<close>

fun fle :: "pyfloat \<Rightarrow> pyfloat \<Rightarrow> bool" where
  "fle NaN _ = False"
| "fle _ NaN = False"
| "fle NegInf _ = True"
| "fle _ PosInf = True"
| "fle PosInf _ = False"
| "fle _ NegInf = False"
| "fle (Num a) (Num b) = (a \<le> b)"

text \<open>Python's \<^verbatim>\<open>>\<close> on floats, used to state the spec's open intervals.\<close>

fun fgt :: "pyfloat \<Rightarrow> pyfloat \<Rightarrow> bool" where
  "fgt NaN _ = False"
| "fgt _ NaN = False"
| "fgt NegInf _ = False"
| "fgt _ PosInf = False"
| "fgt PosInf _ = True"
| "fgt _ NegInf = True"
| "fgt (Num a) (Num b) = (a > b)"

section \<open>The category classifier\<close>

text \<open>
  \<^verbatim>\<open>
  def categorize_pm25(pm):
      if pm <= 50:    return 'Good'
      elif pm <= 100: return 'Moderate'
      elif pm <= 150: return 'Unhealthy for Sensitive Groups'
      else:           return 'Unhealthy'
  \<close>
\<close>

definition categorize_pm25 :: "pyfloat \<Rightarrow> string" where
  "categorize_pm25 pm =
     (if fle pm (Num 50) then ''Good''
      else if fle pm (Num 100) then ''Moderate''
      else if fle pm (Num 150) then ''Unhealthy for Sensitive Groups''
      else ''Unhealthy'')"

section \<open>The dataset loader\<close>

text \<open>
  \<^verbatim>\<open>
  def load_data():
      try:
          if os.path.exists("dashboard/main_data.csv"):
              return pd.read_csv("dashboard/main_data.csv")
          elif os.path.exists("main_data.csv"):
              return pd.read_csv("main_data.csv")
          else:
              return None
      except Exception as e:
          return None
  \<close>
  The file system is the environment of the function: which paths exist, and what
  parsing the file at a path gives. \<^verbatim>\<open>read_csv\<close> returns a whole data frame or raises.
  What is raised is either an instance of \<^verbatim>\<open>Exception\<close> (parser errors, decoding errors,
  OS errors; the string is the class name) or one of the few exceptions outside that
  class (\<^verbatim>\<open>KeyboardInterrupt\<close>, \<^verbatim>\<open>SystemExit\<close>), which the handler does not catch.
\<close>

datatype raised = Exception string | NonException string

record 'df file_system =
  path_exists :: "string \<Rightarrow> bool"
  read_csv :: "string \<Rightarrow> raised + 'df"

text \<open>The body of the \<^verbatim>\<open>try\<close>, with what it raises as a value.\<close>

definition load_data_body :: "'df file_system \<Rightarrow> raised + 'df option" where
  "load_data_body fs =
     (if path_exists fs ''dashboard/main_data.csv'' then
        (case read_csv fs ''dashboard/main_data.csv'' of
           Inl e \<Rightarrow> Inl e | Inr df \<Rightarrow> Inr (Some df))
      else if path_exists fs ''main_data.csv'' then
        (case read_csv fs ''main_data.csv'' of
           Inl e \<Rightarrow> Inl e | Inr df \<Rightarrow> Inr (Some df))
      else Inr None)"

text \<open>\<^verbatim>\<open>except Exception: return None\<close> around the body.\<close>

definition load_data :: "'df file_system \<Rightarrow> raised + 'df option" where
  "load_data fs =
     (case load_data_body fs of
        Inl (Exception c) \<Rightarrow> Inr None
      | Inl (NonException c) \<Rightarrow> Inl (NonException c)
      | Inr r \<Rightarrow> Inr r)"

section \<open>Readings and the data frame\<close>

text \<open>
  A timestamp is a number of nanoseconds since the epoch, as in a \<^verbatim>\<open>datetime64[ns]\<close>
  column; a \<^verbatim>\<open>datetime.date\<close>, which is what the date picker returns, is a number of days
  since the epoch. The rows below are those of the frame after line 44 of the script
  (\<^verbatim>\<open>pd.to_datetime\<close>) has turned the \<^verbatim>\<open>date\<close> column into timestamps.
\<close>

type_synonym timestamp = int
type_synonym pydate = int

record csv_row =
  date :: timestamp
  station :: string
  pm25 :: pyfloat
  pm10 :: pyfloat
  so2 :: pyfloat
  no2 :: pyfloat

text \<open>
  A row of the frame once it has the \<^verbatim>\<open>Air_Quality_Category\<close> column. A cell of that
  column read from a file may be missing (\<open>None\<close>).
\<close>

record reading = csv_row +
  category :: "string option"

text \<open>
  Whether the column \<^verbatim>\<open>Air_Quality_Category\<close> is among the columns is a property of the
  frame, not of a row: a loaded frame either lacks it in every row or has it in every row.
\<close>

datatype dataframe = Unlabelled "csv_row list" | Labelled "reading list"

text \<open>
  \<^verbatim>\<open>
  if 'Air_Quality_Category' not in all_df.columns:
      all_df['Air_Quality_Category'] = all_df['PM2.5'].apply(categorize_pm25)
  \<close>
\<close>

definition add_category :: "csv_row \<Rightarrow> reading" where
  "add_category r =
     \<lparr>date = date r, station = station r, pm25 = pm25 r, pm10 = pm10 r,
      so2 = so2 r, no2 = no2 r, category = Some (categorize_pm25 (pm25 r))\<rparr>"

text \<open>The column index of a frame (the columns the script reads).\<close>

fun columns :: "dataframe \<Rightarrow> string list" where
  "columns (Unlabelled rs) = [''date'', ''station'', ''PM2.5'', ''PM10'', ''SO2'', ''NO2'']"
| "columns (Labelled rs) =
     [''date'', ''station'', ''PM2.5'', ''PM10'', ''SO2'', ''NO2'', ''Air_Quality_Category'']"

text \<open>
  The assignment \<^verbatim>\<open>all_df['Air_Quality_Category'] = ...\<close> by itself: it adds the column,
  or overwrites it where it exists.
\<close>

fun assign_category :: "dataframe \<Rightarrow> dataframe" where
  "assign_category (Unlabelled rs) = Labelled (map add_category rs)"
| "assign_category (Labelled rs) =
     Labelled (map (\<lambda>r. r\<lparr>category := Some (categorize_pm25 (pm25 r))\<rparr>) rs)"

definition preprocess :: "dataframe \<Rightarrow> dataframe" where
  "preprocess all_df =
     (if ''Air_Quality_Category'' \<notin> set (columns all_df) then assign_category all_df
      else all_df)"

text \<open>
  The rows of a frame that has the category column; reading that column of a frame
  without it is a \<^verbatim>\<open>KeyError\<close> (\<open>None\<close>).
\<close>

fun readings :: "dataframe \<Rightarrow> reading list option" where
  "readings (Unlabelled rs) = None"
| "readings (Labelled rs) = Some rs"

section \<open>The filter\<close>

definition ns_per_day :: int where
  "ns_per_day = 86400000000000"

text \<open>
  The script compares the timestamp column with \<^verbatim>\<open>str(start_date)\<close> and
  \<^verbatim>\<open>str(end_date)\<close>, strings of the form YYYY-MM-DD. pandas parses such a string to
  the timestamp of that day at 00:00:00 before comparing.
\<close>

definition to_timestamp :: "pydate \<Rightarrow> timestamp" where
  "to_timestamp d = d * ns_per_day"

text \<open>The calendar day a timestamp lies on.\<close>

definition day_of :: "timestamp \<Rightarrow> pydate" where
  "day_of t = t div ns_per_day"

text \<open>\<^verbatim>\<open>station_list = all_df['station'].unique().tolist()\<close>: in order of first appearance.\<close>

definition station_list :: "reading list \<Rightarrow> string list" where
  "station_list all_df = rev (remdups (rev (map station all_df)))"

text \<open>
  \<^verbatim>\<open>
  main_df = all_df[(all_df["date"] >= str(start_date)) &
                   (all_df["date"] <= str(end_date))]
  if selected_station:
      main_df = main_df[main_df['station'].isin(selected_station)]
  \<close>
\<close>

definition main_df :: "reading list \<Rightarrow> string list \<Rightarrow> pydate \<Rightarrow> pydate \<Rightarrow> reading list" where
  "main_df all_df selected_station start_date end_date =
     (let dated = filter (\<lambda>r. date r \<ge> to_timestamp start_date \<and>
                                date r \<le> to_timestamp end_date) all_df
      in if selected_station \<noteq> [] then
           filter (\<lambda>r. station r \<in> set selected_station) dated
         else dated)"

section \<open>The aggregations\<close>

text \<open>
  Sums and means of floats. A finite sum is computed here in the reals, whereas the
  machine additions round and overflow, in an order of summation that belongs to the
  library and follows the rows. The digits of a mean are therefore not those of the
  program, and nothing proved below depends on them: the statements about means only use
  which values a mean is taken over and whether it is NaN for want of any value.
\<close>

fun fadd :: "pyfloat \<Rightarrow> pyfloat \<Rightarrow> pyfloat" where
  "fadd NaN _ = NaN"
| "fadd _ NaN = NaN"
| "fadd PosInf NegInf = NaN"
| "fadd NegInf PosInf = NaN"
| "fadd PosInf _ = PosInf"
| "fadd _ PosInf = PosInf"
| "fadd NegInf _ = NegInf"
| "fadd _ NegInf = NegInf"
| "fadd (Num a) (Num b) = Num (a + b)"

fun fdiv_count :: "pyfloat \<Rightarrow> nat \<Rightarrow> pyfloat" where
  "fdiv_count (Num a) n = Num (a / real n)"
| "fdiv_count x n = x"

text \<open>
  \<^verbatim>\<open>Series.mean()\<close> with its default \<^verbatim>\<open>skipna=True\<close>: the missing values are left out,
  and the mean of no value at all is NaN.
\<close>

definition series_mean :: "pyfloat list \<Rightarrow> pyfloat" where
  "series_mean xs =
     (let vs = filter (\<lambda>x. x \<noteq> NaN) xs
      in if vs = [] then NaN else fdiv_count (foldl fadd (Num 0) vs) (length vs))"

text \<open>\<^verbatim>\<open>avg_pm25 = main_df['PM2.5'].mean()\<close> and \<^verbatim>\<open>avg_pm10 = main_df['PM10'].mean()\<close>.\<close>

definition avg_pm25 :: "reading list \<Rightarrow> pyfloat" where
  "avg_pm25 df = series_mean (map pm25 df)"

definition avg_pm10 :: "reading list \<Rightarrow> pyfloat" where
  "avg_pm10 df = series_mean (map pm10 df)"

text \<open>
  \<^verbatim>\<open>
  daily_df = main_df.resample(rule='D', on='date').agg({"PM2.5": "mean"}).reset_index()
  \<close>
  \<^verbatim>\<open>resample\<close> cuts the time axis into consecutive one-day bins, from the day of the
  earliest timestamp to the day of the latest one, and aggregates the rows of each bin;
  a bin without rows is kept, and its mean is the mean of no value. On a frame without
  rows there is no bin. Each bin is labelled by its start, midnight of the day.
\<close>

definition daily_df :: "reading list \<Rightarrow> (timestamp \<times> pyfloat) list" where
  "daily_df df =
     (case map (\<lambda>r. day_of (date r)) df of
        [] \<Rightarrow> []
      | d # ds \<Rightarrow>
          map (\<lambda>day. (to_timestamp day,
                       series_mean (map pm25 (filter (\<lambda>r. day_of (date r) = day) df))))
              [fold min ds d .. fold max ds d])"

text \<open>
  \<^verbatim>\<open>
  station_avg = main_df.groupby('station')[['PM2.5', 'PM10', 'SO2', 'NO2']].mean().reset_index()
  station_melt = station_avg.melt(id_vars='station', var_name='Pollutant',
                                  value_name='Concentration')
  \<close>
  \<^verbatim>\<open>groupby\<close> makes one group for each station that occurs, in sorted order of the keys.
\<close>

definition station_avg ::
  "reading list \<Rightarrow> (string \<times> pyfloat \<times> pyfloat \<times> pyfloat \<times> pyfloat) list" where
  "station_avg df =
     map (\<lambda>s. let g = filter (\<lambda>r. station r = s) df
               in (s, series_mean (map pm25 g), series_mean (map pm10 g),
                      series_mean (map so2 g), series_mean (map no2 g)))
         (sort (remdups (map station df)))"

definition station_melt ::
  "(string \<times> pyfloat \<times> pyfloat \<times> pyfloat \<times> pyfloat) list \<Rightarrow>
     (string \<times> string \<times> pyfloat) list" where
  "station_melt avg =
     map (\<lambda>(s, a, b, c, d). (s, ''PM2.5'', a)) avg @
     map (\<lambda>(s, a, b, c, d). (s, ''PM10'', b)) avg @
     map (\<lambda>(s, a, b, c, d). (s, ''SO2'', c)) avg @
     map (\<lambda>(s, a, b, c, d). (s, ''NO2'', d)) avg"

text \<open>
  The station comparison is computed only under \<^verbatim>\<open>if len(selected_station) > 0\<close>;
  otherwise the script shows a hint and computes nothing (\<open>None\<close>).
\<close>

definition station_comparison ::
  "string list \<Rightarrow> reading list \<Rightarrow> (string \<times> string \<times> pyfloat) list option" where
  "station_comparison selected_station df =
     (if length selected_station > 0 then Some (station_melt (station_avg df)) else None)"

text \<open>
  \<^verbatim>\<open>category_counts = main_df['Air_Quality_Category'].value_counts()\<close>: the number of
  rows of each value that occurs, missing cells left out, the most frequent value first.
  The order among values of equal frequency is a detail of the library; they are listed
  here in the order of their first appearance, and nothing proved below depends on it.
\<close>

definition category_counts :: "reading list \<Rightarrow> (string \<times> nat) list" where
  "category_counts df =
     (let cats = List.map_filter category df
      in sort_key (\<lambda>(c, n). - int n)
           (map (\<lambda>c. (c, count_list cats c)) (rev (remdups (rev cats)))))"

section \<open>Concrete inputs\<close>

text \<open>A reading with only the columns that matter below filled in.\<close>

definition reading_at :: "timestamp \<Rightarrow> string \<Rightarrow> pyfloat \<Rightarrow> reading" where
  "reading_at t s pm =
     \<lparr>date = t, station = s, pm25 = pm, pm10 = NaN, so2 = NaN, no2 = NaN,
      category = Some (categorize_pm25 pm)\<rparr>"

text \<open>Day 15765 is 2013-03-01; \<open>hour h\<close> is \<open>h\<close> hours in nanoseconds.\<close>

definition hour :: "int \<Rightarrow> int" where
  "hour h = h * 3600000000000"

text \<open>
  Two readings two days apart: station A on 2013-03-01 at 13:00 and station B on
  2013-03-03 at 00:00. No reading lies on 2013-03-02.
\<close>

definition gap_df :: "reading list" where
  "gap_df = [reading_at (to_timestamp 15765 + hour 13) ''A'' (Num 40),
             reading_at (to_timestamp 15767) ''B'' (Num 120)]"

text \<open>A frame that comes with its own labels, which are not those of the classifier.\<close>

definition prelabelled_df :: dataframe where
  "prelabelled_df =
     Labelled [\<lparr>date = to_timestamp 15765, station = ''A'', pm25 = Num 40, pm10 = Num 60,
                so2 = NaN, no2 = Num 7, category = Some ''Hazardous''\<rparr>,
               \<lparr>date = to_timestamp 15766, station = ''B'', pm25 = Num 120, pm10 = NaN,
                so2 = Num 3, no2 = Num 9, category = None\<rparr>]"

definition unlabelled_df :: dataframe where
  "unlabelled_df =
     Unlabelled [\<lparr>date = to_timestamp 15765, station = ''A'', pm25 = Num 40, pm10 = Num 60,
                  so2 = NaN, no2 = Num 7\<rparr>,
                 \<lparr>date = to_timestamp 15766, station = ''B'', pm25 = NaN, pm10 = NaN,
                  so2 = Num 3, no2 = Num 9\<rparr>]"

text \<open>
  File systems: one where both files exist and parse, one where only the second file
  exists, one where the first file exists and does not parse while the second would, one
  where the second file is the only one and does not parse, and one without either file.
\<close>

definition fs_both :: "dataframe file_system" where
  "fs_both =
     \<lparr>path_exists = (\<lambda>p. p = ''dashboard/main_data.csv'' \<or> p = ''main_data.csv''),
      read_csv = (\<lambda>p. if p = ''dashboard/main_data.csv'' then Inr prelabelled_df
                         else Inr unlabelled_df)\<rparr>"

definition fs_second_only :: "dataframe file_system" where
  "fs_second_only =
     \<lparr>path_exists = (\<lambda>p. p = ''main_data.csv''),
      read_csv = (\<lambda>p. if p = ''main_data.csv'' then Inr unlabelled_df
                         else Inl (Exception ''FileNotFoundError''))\<rparr>"

definition fs_first_broken :: "dataframe file_system" where
  "fs_first_broken =
     \<lparr>path_exists = (\<lambda>p. p = ''dashboard/main_data.csv'' \<or> p = ''main_data.csv''),
      read_csv = (\<lambda>p. if p = ''dashboard/main_data.csv'' then Inl (Exception ''ParserError'')
                         else Inr unlabelled_df)\<rparr>"

definition fs_second_broken :: "dataframe file_system" where
  "fs_second_broken =
     \<lparr>path_exists = (\<lambda>p. p = ''main_data.csv''),
      read_csv = (\<lambda>p. if p = ''main_data.csv'' then Inl (Exception ''EmptyDataError'')
                         else Inl (Exception ''FileNotFoundError''))\<rparr>"

definition fs_none :: "dataframe file_system" where
  "fs_none =
     \<lparr>path_exists = (\<lambda>p. False),
      read_csv = (\<lambda>p. Inl (Exception ''FileNotFoundError''))\<rparr>"

section \<open>Properties of the classifier\<close>

lemma fle_Num_cases:
  "fle pm (Num b) = (case pm of Num a \<Rightarrow> a \<le> b | NegInf \<Rightarrow> True | _ \<Rightarrow> False)"
  by (cases pm) simp_all

lemma fgt_Num_cases:
  "fgt pm (Num b) = (case pm of Num a \<Rightarrow> a > b | PosInf \<Rightarrow> True | _ \<Rightarrow> False)"
  by (cases pm) simp_all

text \<open>
  Claim C1. For every PM2.5 value, the classifier returns Good when the value is at most
  50, Moderate when it is above 50 and at most 100, Unhealthy for Sensitive Groups when it
  is above 100 and at most 150, and Unhealthy when it is above 150; the boundary values
  50, 100 and 150 fall in the lower category.
\<close>

theorem categorize_pm25_thresholds:
  "(fle pm (Num 50) \<longrightarrow> categorize_pm25 pm = ''Good'') \<and>
   (fgt pm (Num 50) \<and> fle pm (Num 100) \<longrightarrow> categorize_pm25 pm = ''Moderate'') \<and>
   (fgt pm (Num 100) \<and> fle pm (Num 150) \<longrightarrow>
      categorize_pm25 pm = ''Unhealthy for Sensitive Groups'') \<and>
   (fgt pm (Num 150) \<longrightarrow> categorize_pm25 pm = ''Unhealthy'') \<and>
   categorize_pm25 (Num 50) = ''Good'' \<and>
   categorize_pm25 (Num 100) = ''Moderate'' \<and>
   categorize_pm25 (Num 150) = ''Unhealthy for Sensitive Groups''"
  by (cases pm) (simp_all add: categorize_pm25_def)

theorem categorize_pm25_thresholds_witness:
  "fle (Num 12) (Num 50) \<and> categorize_pm25 (Num 12) = ''Good'' \<and>
   fgt (Num 75.5) (Num 50) \<and> fle (Num 75.5) (Num 100) \<and>
     categorize_pm25 (Num 75.5) = ''Moderate'' \<and>
   fgt (Num 101) (Num 100) \<and> fle (Num 101) (Num 150) \<and>
     categorize_pm25 (Num 101) = ''Unhealthy for Sensitive Groups'' \<and>
   fgt PosInf (Num 150) \<and> categorize_pm25 PosInf = ''Unhealthy'' \<and>
   fgt (Num 150.1) (Num 150) \<and> categorize_pm25 (Num 150.1) = ''Unhealthy''"
  using categorize_pm25_thresholds [of "Num 12"]
    categorize_pm25_thresholds [of "Num 75.5"]
    categorize_pm25_thresholds [of "Num 101"]
    categorize_pm25_thresholds [of PosInf]
    categorize_pm25_thresholds [of "Num 150.1"]
  by simp

text \<open>
  Claim C10. On a missing (NaN) PM2.5 value the classifier does not raise: each of the
  three threshold comparisons is false, so the value falls through to the last branch
  and is labelled Unhealthy.
\<close>

theorem categorize_pm25_nan:
  "categorize_pm25 NaN = ''Unhealthy'' \<and>
   \<not> fle NaN (Num 50) \<and> \<not> fle NaN (Num 100) \<and> \<not> fle NaN (Num 150)"
  by (simp add: categorize_pm25_def)

section \<open>Properties of the loader\<close>

text \<open>
  Claim C5. The loader checks the two fixed relative locations in order and parses the
  first one that exists. When neither exists, or when parsing the chosen file fails, it
  returns the absent signal; a dataset it returns is the whole result of parsing that
  file, never part of one.
\<close>

theorem load_data_first_existing:
  "(\<not> path_exists fs ''dashboard/main_data.csv'' \<and> \<not> path_exists fs ''main_data.csv'' \<longrightarrow>
      load_data fs = Inr None) \<and>
   (\<forall>df. path_exists fs ''dashboard/main_data.csv'' \<and>
      read_csv fs ''dashboard/main_data.csv'' = Inr df \<longrightarrow> load_data fs = Inr (Some df)) \<and>
   (\<forall>c. path_exists fs ''dashboard/main_data.csv'' \<and>
      read_csv fs ''dashboard/main_data.csv'' = Inl (Exception c) \<longrightarrow> load_data fs = Inr None) \<and>
   (\<forall>df. \<not> path_exists fs ''dashboard/main_data.csv'' \<and> path_exists fs ''main_data.csv'' \<and>
      read_csv fs ''main_data.csv'' = Inr df \<longrightarrow> load_data fs = Inr (Some df)) \<and>
   (\<forall>c. \<not> path_exists fs ''dashboard/main_data.csv'' \<and> path_exists fs ''main_data.csv'' \<and>
      read_csv fs ''main_data.csv'' = Inl (Exception c) \<longrightarrow> load_data fs = Inr None) \<and>
   (\<forall>df. load_data fs = Inr (Some df) \<longrightarrow>
      (path_exists fs ''dashboard/main_data.csv'' \<and>
         read_csv fs ''dashboard/main_data.csv'' = Inr df) \<or>
      (\<not> path_exists fs ''dashboard/main_data.csv'' \<and> path_exists fs ''main_data.csv'' \<and>
         read_csv fs ''main_data.csv'' = Inr df)) \<and>
   (\<forall>c. load_data fs \<noteq> Inl (Exception c))"
  by (auto simp: load_data_def load_data_body_def split: sum.splits raised.splits if_splits)

theorem load_data_first_existing_witness:
  "\<not> path_exists fs_none ''dashboard/main_data.csv'' \<and>
   \<not> path_exists fs_none ''main_data.csv'' \<and>
   load_data fs_none = Inr None \<and>
   path_exists fs_both ''dashboard/main_data.csv'' \<and>
   read_csv fs_both ''dashboard/main_data.csv'' = Inr prelabelled_df \<and>
   load_data fs_both = Inr (Some prelabelled_df) \<and>
   path_exists fs_first_broken ''dashboard/main_data.csv'' \<and>
   read_csv fs_first_broken ''dashboard/main_data.csv'' = Inl (Exception ''ParserError'') \<and>
   load_data fs_first_broken = Inr None \<and>
   \<not> path_exists fs_second_only ''dashboard/main_data.csv'' \<and>
   path_exists fs_second_only ''main_data.csv'' \<and>
   read_csv fs_second_only ''main_data.csv'' = Inr unlabelled_df \<and>
   load_data fs_second_only = Inr (Some unlabelled_df) \<and>
   \<not> path_exists fs_second_broken ''dashboard/main_data.csv'' \<and>
   path_exists fs_second_broken ''main_data.csv'' \<and>
   read_csv fs_second_broken ''main_data.csv'' = Inl (Exception ''EmptyDataError'') \<and>
   load_data fs_second_broken = Inr None"
  using load_data_first_existing [of fs_none]
    load_data_first_existing [of fs_both]
    load_data_first_existing [of fs_first_broken]
    load_data_first_existing [of fs_second_only]
    load_data_first_existing [of fs_second_broken]
  by (simp add: fs_none_def fs_both_def fs_first_broken_def fs_second_only_def
      fs_second_broken_def)

section \<open>Properties of the preprocessing\<close>

text \<open>Assigning the column would replace labels that came with the file.\<close>

lemma assign_category_overwrites: "assign_category prelabelled_df \<noteq> prelabelled_df"
  by (simp add: prelabelled_df_def categorize_pm25_def)

text \<open>
  Claim C8. The classifier is applied only when the loaded frame lacks the column
  Air_Quality_Category; a frame that has the column passes through unchanged, its labels
  are not recomputed.
\<close>

theorem preprocess_category_column:
  "(''Air_Quality_Category'' \<in> set (columns df) \<longrightarrow> preprocess df = df) \<and>
   (''Air_Quality_Category'' \<notin> set (columns df) \<longrightarrow>
      (\<exists>rs. df = Unlabelled rs \<and> preprocess df = Labelled (map add_category rs) \<and>
            map category (map add_category rs) =
              map (\<lambda>r. Some (categorize_pm25 (pm25 r))) rs))"
  by (cases df) (simp_all add: preprocess_def add_category_def)

theorem preprocess_category_column_witness:
  "''Air_Quality_Category'' \<in> set (columns prelabelled_df) \<and>
   preprocess prelabelled_df = prelabelled_df \<and>
   ''Air_Quality_Category'' \<notin> set (columns unlabelled_df) \<and>
   readings (preprocess unlabelled_df) =
     Some [\<lparr>date = to_timestamp 15765, station = ''A'', pm25 = Num 40, pm10 = Num 60,
            so2 = NaN, no2 = Num 7, category = Some ''Good''\<rparr>,
           \<lparr>date = to_timestamp 15766, station = ''B'', pm25 = NaN, pm10 = NaN,
            so2 = Num 3, no2 = Num 9, category = Some ''Unhealthy''\<rparr>]"
  using preprocess_category_column [of prelabelled_df]
    preprocess_category_column [of unlabelled_df]
  by (simp add: prelabelled_df_def unlabelled_df_def add_category_def categorize_pm25_def)

section \<open>Properties of the filter\<close>

lemma day_of_to_timestamp: "day_of (to_timestamp d) = d"
  by (simp add: day_of_def to_timestamp_def ns_per_day_def)

text \<open>What the filter keeps: the bounds are the two midnights.\<close>

lemma set_main_df:
  "set (main_df all_df selected_station start_date end_date) =
     {r \<in> set all_df. to_timestamp start_date \<le> date r \<and> date r \<le> to_timestamp end_date \<and>
        (selected_station = [] \<or> station r \<in> set selected_station)}"
  by (auto simp: main_df_def Let_def)

text \<open>
  Claim C2. The date filter is to retain every reading whose date lies in the selected
  interval, both ends included, so every reading dated anywhere on the end day. The code
  compares the timestamp with midnight of the end day: a reading of 2013-03-01 at 13:00
  lies on the end day 2013-03-01 and is dropped.
\<close>

theorem main_df_drops_reading_on_end_day:
  "day_of (to_timestamp 15765 + hour 13) = 15765 \<and>
   main_df [reading_at (to_timestamp 15765 + hour 13) ''A'' (Num 40)] [] 15765 15765 = [] \<and>
   main_df [reading_at (to_timestamp 15765) ''A'' (Num 40)] [] 15765 15765 =
     [reading_at (to_timestamp 15765) ''A'' (Num 40)]"
  by (simp add: main_df_def reading_at_def to_timestamp_def day_of_def hour_def ns_per_day_def)

text \<open>
  Claim C4. Filtering with an empty station selection is no station filter: it keeps
  every row of the dataset whose date passes the date filter, whatever its station, and
  these are the same rows as filtering with the list of all stations of the dataset.
\<close>

theorem main_df_empty_selection:
  "main_df all_df [] start_date end_date =
     filter (\<lambda>r. to_timestamp start_date \<le> date r \<and> date r \<le> to_timestamp end_date) all_df \<and>
   main_df all_df (station_list all_df) start_date end_date =
     main_df all_df [] start_date end_date"
  by (auto simp: main_df_def Let_def station_list_def intro!: filter_cong)

text \<open>
  Claim C7. Filtering is idempotent: filtering a filtered dataset again with the same
  selection returns the same rows.
\<close>

theorem main_df_idempotent:
  "main_df (main_df all_df selected_station start_date end_date)
       selected_station start_date end_date =
     main_df all_df selected_station start_date end_date"
  by (simp add: main_df_def Let_def)

section \<open>Properties of the aggregations\<close>

lemma series_mean_Nil: "series_mean [] = NaN"
  by (simp add: series_mean_def)

lemma fold_min_Min: "fold min ds (d::int) = Min (set (d # ds))"
  by (simp only: Min.set_eq_fold)

lemma fold_max_Max: "fold max ds (d::int) = Max (set (d # ds))"
  by (simp only: Max.set_eq_fold)

lemma daily_df_Nil: "daily_df [] = []"
  by (simp add: daily_df_def)

lemma daily_df_days:
  assumes "df \<noteq> []"
  shows "map fst (daily_df df) =
         map to_timestamp [Min (set (map (\<lambda>r. day_of (date r)) df)) ..
                           Max (set (map (\<lambda>r. day_of (date r)) df))]"
proof -
  obtain r rs where df: "df = r # rs" using assms by (cases df) auto
  show ?thesis
    unfolding df daily_df_def
    by (simp add: fold_min_Min fold_max_Max comp_def del: upto.simps)
qed

lemma daily_df_entry:
  assumes "(t, m) \<in> set (daily_df df)"
  shows "m = series_mean (map pm25 (filter (\<lambda>r. day_of (date r) = day_of t) df))"
  using assms
  by (auto simp: daily_df_def day_of_to_timestamp split: list.splits)

lemma daily_df_gap_df:
  "daily_df gap_df =
     [(to_timestamp 15765, Num 40), (to_timestamp 15766, NaN), (to_timestamp 15767, Num 120)]"
  by (simp add: daily_df_def gap_df_def reading_at_def to_timestamp_def hour_def
      ns_per_day_def day_of_def series_mean_def)

lemma no_reading_on_gap_day:
  "filter (\<lambda>r. day_of (date r) = day_of (to_timestamp 15766)) gap_df = []"
  by (simp add: gap_df_def reading_at_def to_timestamp_def hour_def ns_per_day_def day_of_def)

text \<open>
  Claim C3, as stated: the daily trend has an entry only for days with at least one
  reading. It fails: between two days with readings, a day without any reading has an
  entry, whose mean is NaN.
\<close>

theorem daily_df_gap_day_counterexample:
  "filter (\<lambda>r. day_of (date r) = 15766) gap_df = [] \<and>
   (to_timestamp 15766, NaN) \<in> set (daily_df gap_df)"
  by (simp add: daily_df_gap_df)
    (simp add: gap_df_def reading_at_def to_timestamp_def hour_def ns_per_day_def day_of_def)

text \<open>
  Claim C3, amended. The daily trend of a dataset without rows is empty. Otherwise it
  has one entry for each calendar day from the earliest to the latest day with a reading,
  in order of date; the mean of an entry is the mean of the PM2.5 values of that day's
  readings, and it is NaN for a day in that range without any reading (such a day is
  NaN-filled, not zero-filled and not left out).
\<close>

theorem daily_df_calendar_range:
  "daily_df [] = [] \<and>
   (df \<noteq> [] \<longrightarrow>
      map fst (daily_df df) =
        map to_timestamp [Min (set (map (\<lambda>r. day_of (date r)) df)) ..
                          Max (set (map (\<lambda>r. day_of (date r)) df))]) \<and>
   (\<forall>t m. (t, m) \<in> set (daily_df df) \<longrightarrow>
      m = series_mean (map pm25 (filter (\<lambda>r. day_of (date r) = day_of t) df))) \<and>
   (\<forall>t m. (t, m) \<in> set (daily_df df) \<and> filter (\<lambda>r. day_of (date r) = day_of t) df = [] \<longrightarrow>
      m = NaN)"
proof -
  have nan: "m = NaN"
    if "(t, m) \<in> set (daily_df df) \<and> filter (\<lambda>r. day_of (date r) = day_of t) df = []"
    for t m
    using daily_df_entry [of t m df] that by (simp add: series_mean_Nil)
  have entry: "m = series_mean (map pm25 (filter (\<lambda>r. day_of (date r) = day_of t) df))"
    if "(t, m) \<in> set (daily_df df)" for t m
    using that by (rule daily_df_entry)
  from nan entry daily_df_days [of df] daily_df_Nil show ?thesis
    by blast
qed

theorem daily_df_calendar_range_witness:
  "gap_df \<noteq> [] \<and>
   map fst (daily_df gap_df) = map to_timestamp [15765, 15766, 15767] \<and>
   (to_timestamp 15766, NaN) \<in> set (daily_df gap_df) \<and>
   filter (\<lambda>r. day_of (date r) = day_of (to_timestamp 15766)) gap_df = [] \<and>
   (to_timestamp 15765, Num 40) \<in> set (daily_df gap_df) \<and>
   Num 40 =
     series_mean (map pm25 (filter (\<lambda>r. day_of (date r) = day_of (to_timestamp 15765)) gap_df))"
proof -
  have ne: "gap_df \<noteq> []"
    by (simp add: gap_df_def)
  have f: "filter (\<lambda>r. day_of (date r) = day_of (to_timestamp 15765)) gap_df =
             [reading_at (to_timestamp 15765 + hour 13) ''A'' (Num 40)]"
    by (simp add: gap_df_def reading_at_def to_timestamp_def hour_def ns_per_day_def day_of_def)
  have m: "series_mean (map pm25 [reading_at (to_timestamp 15765 + hour 13) ''A'' (Num 40)]) =
             Num 40"
    by (simp add: reading_at_def series_mean_def)
  show ?thesis
    using ne no_reading_on_gap_day daily_df_calendar_range [of gap_df]
    by (simp add: daily_df_gap_df f m)
qed

text \<open>
  Claim C6. When the selection matches no row, the filtered dataset is empty and every
  aggregation returns: the daily trend, the station averages and the category counts are
  empty, and the two overall means are NaN, not zero. The station comparison is the empty
  table when stations are selected; with no station selected the script does not compute
  it.
\<close>

theorem aggregations_of_empty_selection:
  assumes "main_df all_df selected_station start_date end_date = []"
  shows "avg_pm25 (main_df all_df selected_station start_date end_date) = NaN \<and>
         avg_pm10 (main_df all_df selected_station start_date end_date) = NaN \<and>
         avg_pm25 (main_df all_df selected_station start_date end_date) \<noteq> Num 0 \<and>
         avg_pm10 (main_df all_df selected_station start_date end_date) \<noteq> Num 0 \<and>
         daily_df (main_df all_df selected_station start_date end_date) = [] \<and>
         station_avg (main_df all_df selected_station start_date end_date) = [] \<and>
         station_comparison selected_station
             (main_df all_df selected_station start_date end_date) =
           (if selected_station = [] then None else Some []) \<and>
         category_counts (main_df all_df selected_station start_date end_date) = []"
  unfolding assms
  by (simp add: avg_pm25_def avg_pm10_def series_mean_def daily_df_def station_avg_def
      station_comparison_def station_melt_def category_counts_def List.map_filter_simps)

theorem aggregations_of_empty_selection_witness:
  "main_df gap_df [''A''] 15766 15767 = [] \<and>
   avg_pm25 (main_df gap_df [''A''] 15766 15767) = NaN \<and>
   avg_pm10 (main_df gap_df [''A''] 15766 15767) = NaN \<and>
   daily_df (main_df gap_df [''A''] 15766 15767) = [] \<and>
   station_avg (main_df gap_df [''A''] 15766 15767) = [] \<and>
   station_comparison [''A''] (main_df gap_df [''A''] 15766 15767) = Some [] \<and>
   category_counts (main_df gap_df [''A''] 15766 15767) = []"
proof -
  have h: "main_df gap_df [''A''] 15766 15767 = []"
    by (simp add: main_df_def gap_df_def reading_at_def to_timestamp_def hour_def
        ns_per_day_def)
  show ?thesis
    using h aggregations_of_empty_selection [OF h] by simp
qed

end
